theory Spec2Isabelle
  imports Complex_Main
begin

section \<open>The synthetic-jet model with Bouc--Wen hysteresis (csjx\_boucwen\_model.py)\<close>

text \<open>
  The numeric core of the repository is \<^verbatim>\<open>src/csjx_boucwen_model.py\<close>. Its
  double-precision numbers are idealised as \<^typ>\<open>real\<close>: \<open>+\<close>, \<open>*\<close>, \<open>/\<close>,
  \<open>exp\<close>, \<open>sin\<close>, \<open>cos\<close> and \<open>**\<close> are the exact operations, and rounding,
  overflow to \<open>inf\<close> and underflow to \<open>0\<close> are not modelled. What the code does where
  no real number results is written out as a \<open>failure\<close>:
  \<^item> \<open>ZeroDivisionError\<close>: a division of Python floats by zero, which raises;
  \<^item> \<open>ValueError\<close> and \<open>IndexError\<close>: raised inside a numpy routine that cannot
    work on its argument;
  \<^item> \<open>NonFinite\<close>: nothing is raised, but a numpy operation (an array or numpy scalar
    divided by zero, zero to a negative power) yields \<open>inf\<close> or \<open>nan\<close> and the
    code goes on computing with it; the model stops there.
\<close>

datatype failure = ZeroDivisionError | ValueError | IndexError | NonFinite

subsection \<open>Envelope and gain\<close>

text \<open>
  \<^verbatim>\<open>def formation_envelope(S, sigma=1.0, S_opt=4.0):
    return np.exp(-0.5*((S-S_opt)/sigma)**2)\<close>

  Called with Python floats, as \<^verbatim>\<open>simulate_cycle\<close> does.
\<close>

definition formation_envelope :: "real \<Rightarrow> real \<Rightarrow> real \<Rightarrow> failure + real" where
  "formation_envelope S sigma S_opt =
     (if sigma = 0 then Inl ZeroDivisionError
      else Inr (exp (- 0.5 * ((S - S_opt) / sigma)\<^sup>2)))"

text \<open>
  \<^verbatim>\<open>def hysteresis_gain(tau_R, tau0=0.5, k_H=0.6):
    H = tau_R/(tau_R + tau0)
    return 1.0 + k_H * H\<close>
\<close>

definition hysteresis_gain :: "real \<Rightarrow> real \<Rightarrow> real \<Rightarrow> failure + real" where
  "hysteresis_gain tau_R tau0 k_H =
     (if tau_R + tau0 = 0 then Inl ZeroDivisionError
      else (let H = tau_R / (tau_R + tau0) in Inr (1.0 + k_H * H)))"

subsection \<open>The Bouc--Wen rate\<close>

text \<open>
  \<open>a ** b\<close> on a numpy float: \<open>a ** 0\<close> is \<open>1\<close> for every \<open>a\<close> (also \<open>0 ** 0\<close>),
  \<open>0 ** b\<close> is \<open>0\<close> for positive \<open>b\<close> and \<open>inf\<close> for negative \<open>b\<close>, and a
  negative base has a power only for an integral exponent (\<open>nan\<close> otherwise).
  \<open>None\<close> stands for \<open>inf\<close> and \<open>nan\<close>.
\<close>

definition np_power :: "real \<Rightarrow> real \<Rightarrow> real option" where
  "np_power a b =
     (if b = 0 then Some 1
      else if a = 0 then (if 0 < b then Some 0 else None)
      else if 0 < a then Some (a powr b)
      else if b = of_int \<lfloor>b\<rfloor> then Some (a powi \<lfloor>b\<rfloor>)
      else None)"

text \<open>
  \<^verbatim>\<open>def bouc_wen(xdot, z, A=1.0, beta=0.6, gamma=0.2, n=2):
    absz = np.abs(z)
    return A*xdot - beta*np.abs(xdot)*(absz**(n-1))*z - gamma*xdot*(absz**n)\<close>

  A power that is \<open>inf\<close> makes the whole rate \<open>inf\<close> or \<open>nan\<close> (\<open>inf * 0\<close> is
  \<open>nan\<close>), so the rate is \<open>None\<close> as soon as one of the two powers is.
\<close>

definition bouc_wen :: "real \<Rightarrow> real \<Rightarrow> real \<Rightarrow> real \<Rightarrow> real \<Rightarrow> real \<Rightarrow> real option" where
  "bouc_wen xdot z A beta gamma n =
     (let absz = \<bar>z\<bar> in
      case np_power absz (n - 1) of
        None \<Rightarrow> None
      | Some p1 \<Rightarrow>
          (case np_power absz n of
             None \<Rightarrow> None
           | Some p2 \<Rightarrow> Some (A * xdot - beta * \<bar>xdot\<bar> * p1 * z - gamma * xdot * p2)))"

subsection \<open>numpy routines used by the simulator\<close>

text \<open>
  \<^verbatim>\<open>np.arange(0.0, stop, step)\<close> for a non-zero \<open>step\<close>: \<open>ceil(stop/step)\<close>
  samples \<open>0, step, 2*step, ...\<close>, none when that count is not positive.
\<close>

definition arange :: "real \<Rightarrow> real \<Rightarrow> real list" where
  "arange stop step = map (\<lambda>i. real i * step) [0..<nat \<lceil>stop / step\<rceil>]"

text \<open>
  \<^verbatim>\<open>np.trapz(y, x)\<close> for two arrays of one length: the sum of
  \<open>(x[i+1] - x[i]) * (y[i+1] + y[i]) / 2\<close>.
\<close>

fun trapz :: "real list \<Rightarrow> real list \<Rightarrow> real" where
  "trapz (y0 # y1 # ys) (x0 # x1 # xs) =
     (x1 - x0) * (y1 + y0) / 2.0 + trapz (y1 # ys) (x1 # xs)"
| "trapz ys xs = 0"

text \<open>
  \<^verbatim>\<open>np.gradient(f, x)\<close> with a coordinate array and the default edge order 1.
  Coordinates of another length than \<open>f\<close> raise \<open>ValueError\<close>. The routine then takes the differences of \<open>x\<close> and reads the first of them, to see
  whether the spacing is even: with fewer than two samples there is none, and that read
  raises \<open>IndexError\<close>. The two ends of the result are one-sided differences;
  an inner sample uses numpy's three-point formula for uneven spacing, with
  \<open>dx1 = x[i] - x[i-1]\<close> and \<open>dx2 = x[i+1] - x[i]\<close> (its shortcut for even spacing
  is the same value).
\<close>

fun gradient_inner :: "real list \<Rightarrow> real list \<Rightarrow> real list" where
  "gradient_inner (f0 # f1 # f2 # fs) (x0 # x1 # x2 # xs) =
     (let dx1 = x1 - x0; dx2 = x2 - x1;
          a = - dx2 / (dx1 * (dx1 + dx2));
          b = (dx2 - dx1) / (dx1 * dx2);
          c = dx1 / (dx2 * (dx1 + dx2))
      in a * f0 + b * f1 + c * f2) # gradient_inner (f1 # f2 # fs) (x1 # x2 # xs)"
| "gradient_inner fs xs = []"

definition gradient :: "real list \<Rightarrow> real list \<Rightarrow> failure + real list" where
  "gradient fs xs =
     (let m = length fs in
      if length xs \<noteq> m then Inl ValueError
      else if m < 2 then Inl IndexError
      else Inr ((fs ! 1 - fs ! 0) / (xs ! 1 - xs ! 0)
                # gradient_inner fs xs
                @ [(fs ! (m - 1) - fs ! (m - 2)) / (xs ! (m - 1) - xs ! (m - 2))]))"

subsection \<open>One simulated run\<close>

text \<open>
  The arguments of \<^verbatim>\<open>simulate_cycle\<close>, with the defaults of its signature. The
  record fields carry the prefix \<open>par_\<close> (a field named \<open>f\<close> or \<open>n\<close> would take
  these names from every variable). \<open>n\<close> is a real: the exponent may be fractional.
\<close>

record sim_params =
  par_D :: real
  par_f :: real
  par_stroke_ratio :: real
  par_tau_R :: real
  par_cavity_C :: real
  par_rho :: real
  par_mu_air :: real
  par_A_bw :: real
  par_beta :: real
  par_gamma :: real
  par_n :: real
  par_duration_cycles :: int
  par_dt :: real
  par_seed :: int

definition default_params :: sim_params where
  "default_params =
     \<lparr>par_D = 0.010, par_f = 150.0, par_stroke_ratio = 4.0, par_tau_R = 2.0,
      par_cavity_C = 2.0 / 10 ^ 8, par_rho = 1.2, par_mu_air = 1.8 / 10 ^ 5,
      par_A_bw = 1.0, par_beta = 0.6, par_gamma = 0.2, par_n = 2,
      par_duration_cycles = 10, par_dt = 1 / 10 ^ 5, par_seed = 417\<rparr>"

text \<open>
  The locals of \<^verbatim>\<open>simulate_cycle\<close>, in the order of the source, each named
  \<open>loc_\<close> and its source name.

  \<^verbatim>\<open>T = 1.0/f; duration = duration_cycles*T; t = np.arange(0.0, duration, dt)\<close>
\<close>

definition loc_T :: "sim_params \<Rightarrow> real" where
  "loc_T p = 1.0 / par_f p"

definition loc_duration :: "sim_params \<Rightarrow> real" where
  "loc_duration p = real_of_int (par_duration_cycles p) * loc_T p"

definition loc_t :: "sim_params \<Rightarrow> real list" where
  "loc_t p = arange (loc_duration p) (par_dt p)"

text \<open>
  \<^verbatim>\<open>S = stroke_ratio; L0 = S*D; x_amp = (L0/2.0)
  x = x_amp*np.sin(2*pi*f*t); xdot = 2*pi*f*x_amp*np.cos(2*pi*f*t)\<close>
\<close>

definition loc_L0 :: "sim_params \<Rightarrow> real" where
  "loc_L0 p = par_stroke_ratio p * par_D p"

definition loc_U0 :: "sim_params \<Rightarrow> real" where
  \<comment> \<open>\<^verbatim>\<open>U0 = L0/(0.5*T)\<close>, which no later line reads\<close>
  "loc_U0 p = loc_L0 p / (0.5 * loc_T p)"

definition loc_x_amp :: "sim_params \<Rightarrow> real" where
  "loc_x_amp p = loc_L0 p / 2.0"

definition loc_x :: "sim_params \<Rightarrow> real list" where
  "loc_x p = map (\<lambda>ti. loc_x_amp p * sin (2 * pi * par_f p * ti)) (loc_t p)"

definition loc_xdot :: "sim_params \<Rightarrow> real list" where
  "loc_xdot p = map (\<lambda>ti. 2 * pi * par_f p * loc_x_amp p * cos (2 * pi * par_f p * ti)) (loc_t p)"

text \<open>
  \<^verbatim>\<open>z = np.zeros_like(t)
  for i in range(1, len(t)):
      z[i] = z[i-1] + (bouc_wen(xdot[i-1], z[i-1], A=A_bw, beta=beta, gamma=gamma, n=n)
                       * dt / max(1e-9, tau_R))\<close>

  The loop runs over the list of its indices and updates the array in place. A rate that
  is not finite ends the model's loop with \<open>None\<close>: in the source every later entry of
  \<open>z\<close> is \<open>nan\<close> from there on.
\<close>

fun z_loop :: "sim_params \<Rightarrow> real list \<Rightarrow> nat list \<Rightarrow> real list \<Rightarrow> real list option" where
  "z_loop p xdot [] z = Some z"
| "z_loop p xdot (i # is) z =
     (case bouc_wen (xdot ! (i - 1)) (z ! (i - 1)) (par_A_bw p) (par_beta p) (par_gamma p) (par_n p) of
        None \<Rightarrow> None
      | Some r \<Rightarrow>
          z_loop p xdot is (z[i := z ! (i - 1) + r * par_dt p / max (1 / 10 ^ 9) (par_tau_R p)]))"

definition loc_z :: "sim_params \<Rightarrow> real list option" where
  "loc_z p =
     (let n = length (loc_t p)
      in z_loop p (loc_xdot p) [1..<n] (replicate n 0))"

text \<open>
  \<^verbatim>\<open>k1 = 1.0 / max(1e-12, cavity_C); k2 = 0.2 * k1; p = k1*x + k2*z
  A0 = pi*(D/2.0)**2; dV = A0*x\<close>
\<close>

definition loc_k1 :: "sim_params \<Rightarrow> real" where
  "loc_k1 p = 1.0 / max (1 / 10 ^ 12) (par_cavity_C p)"

definition loc_k2 :: "sim_params \<Rightarrow> real" where
  "loc_k2 p = 0.2 * loc_k1 p"

definition loc_p :: "sim_params \<Rightarrow> real list \<Rightarrow> real list" where
  "loc_p p z = map2 (\<lambda>xi zi. loc_k1 p * xi + loc_k2 p * zi) (loc_x p) z"

definition loc_A0 :: "sim_params \<Rightarrow> real" where
  "loc_A0 p = pi * (par_D p / 2.0)\<^sup>2"

definition loc_dV :: "sim_params \<Rightarrow> real list" where
  "loc_dV p = map (\<lambda>xi. loc_A0 p * xi) (loc_x p)"

text \<open>
  \<^verbatim>\<open>idx0 = int(0.8*len(t))
  A_loop = np.trapz(p[idx0:]*np.gradient(dV[idx0:], t[idx0:]), t[idx0:])\<close>
\<close>

definition loc_idx0 :: "sim_params \<Rightarrow> nat" where
  "loc_idx0 p = nat \<lfloor>0.8 * real (length (loc_t p))\<rfloor>"

definition loc_gradient :: "sim_params \<Rightarrow> failure + real list" where
  \<comment> \<open>\<^verbatim>\<open>np.gradient(dV[idx0:], t[idx0:])\<close>, in which \<open>z\<close> has no part\<close>
  "loc_gradient p = gradient (drop (loc_idx0 p) (loc_dV p)) (drop (loc_idx0 p) (loc_t p))"

definition loc_A_loop :: "sim_params \<Rightarrow> real list \<Rightarrow> real list \<Rightarrow> real" where
  "loc_A_loop p z g =
     trapz (map2 (*) (drop (loc_idx0 p) (loc_p p z)) g) (drop (loc_idx0 p) (loc_t p))"

text \<open>
  \<^verbatim>\<open>out = xdot > 0; u = (xdot/A0) * out; Cc = 0.8; u_exit = Cc * u
  thrust_inst = 1.0 * rho * A0 * (u_exit**2) * out
  impulse = np.trapz(thrust_inst, t)\<close>

  A boolean array multiplies as \<open>1\<close> and \<open>0\<close>. \<open>xdot/A0\<close> divides an array by a
  Python float: for \<open>A0 = 0\<close> nothing is raised and the quotient is \<open>inf\<close> or \<open>nan\<close>,
  which \<^verbatim>\<open>simulate_cycle\<close> below reports as \<open>NonFinite\<close>.
\<close>

definition loc_out :: "sim_params \<Rightarrow> real list" where
  "loc_out p = map (\<lambda>v. if v > 0 then 1 else 0) (loc_xdot p)"

definition loc_u :: "sim_params \<Rightarrow> real list" where
  "loc_u p = map2 (\<lambda>v out. (v / loc_A0 p) * out) (loc_xdot p) (loc_out p)"

definition loc_u_exit :: "sim_params \<Rightarrow> real list" where
  "loc_u_exit p = map (\<lambda>ui. 0.8 * ui) (loc_u p)"

definition loc_thrust_inst :: "sim_params \<Rightarrow> real list" where
  "loc_thrust_inst p =
     map2 (\<lambda>ue out. 1.0 * par_rho p * loc_A0 p * ue\<^sup>2 * out) (loc_u_exit p) (loc_out p)"

definition loc_impulse :: "sim_params \<Rightarrow> real" where
  "loc_impulse p = trapz (loc_thrust_inst p) (loc_t p)"

text \<open>The dictionary that \<^verbatim>\<open>simulate_cycle\<close> returns, one field for each key.\<close>

record sim_result =
  res_t :: "real list"
  res_x :: "real list"
  res_xdot :: "real list"
  res_z :: "real list"
  res_p :: "real list"
  res_dV :: "real list"
  res_A_loop :: real
  res_impulse_raw :: real
  res_impulse :: real
  res_S :: real
  res_tau_R :: real
  res_D :: real
  res_f :: real

text \<open>
  \<^verbatim>\<open>simulate_cycle\<close>. What it raises, in the order of the source:
  \<^item> \<^verbatim>\<open>np.random.default_rng(seed)\<close> raises \<open>ValueError\<close> for a negative seed; the
    generator is never used afterwards;
  \<^item> \<^verbatim>\<open>T = 1.0/f\<close> raises \<open>ZeroDivisionError\<close> for \<open>f = 0\<close>;
  \<^item> \<^verbatim>\<open>np.arange(0.0, duration, dt)\<close> divides by its step and raises
    \<open>ZeroDivisionError\<close> for \<open>dt = 0\<close>;
  \<^item> \<^verbatim>\<open>np.gradient\<close> raises \<open>IndexError\<close> when the last fifth of the samples has
    fewer than two of them;
  \<^item> \<^verbatim>\<open>hysteresis_gain(tau_R)\<close> raises \<open>ZeroDivisionError\<close> for \<open>tau_R = -0.5\<close>.

  Otherwise it returns its dictionary. The hysteresis loop and the division by \<open>A0\<close>
  raise nothing: when the loop met a rate that is not finite, or when \<open>A0 = 0\<close>, the
  returned dictionary holds \<open>nan\<close>, which is \<open>NonFinite\<close> here.

  \<^verbatim>\<open>eff = formation_envelope(S); G = hysteresis_gain(tau_R)
  impulse_eff = impulse * eff * G\<close>
\<close>

definition simulate_cycle :: "sim_params \<Rightarrow> failure + sim_result" where
  "simulate_cycle p =
     (if par_seed p < 0 then Inl ValueError
      else if par_f p = 0 then Inl ZeroDivisionError
      else if par_dt p = 0 then Inl ZeroDivisionError
      else
        (case loc_gradient p of
           Inl e \<Rightarrow> Inl e
         | Inr g \<Rightarrow>
            (case formation_envelope (par_stroke_ratio p) 1.0 4.0 of
               Inl e \<Rightarrow> Inl e
             | Inr eff \<Rightarrow>
                (case hysteresis_gain (par_tau_R p) 0.5 0.6 of
                   Inl e \<Rightarrow> Inl e
                 | Inr G \<Rightarrow>
                    (case loc_z p of
                       None \<Rightarrow> Inl NonFinite
                     | Some z \<Rightarrow>
                        if loc_A0 p = 0 then Inl NonFinite
                        else
                          Inr \<lparr>res_t = loc_t p, res_x = loc_x p, res_xdot = loc_xdot p,
                               res_z = z, res_p = loc_p p z, res_dV = loc_dV p,
                               res_A_loop = loc_A_loop p z g,
                               res_impulse_raw = loc_impulse p,
                               res_impulse = loc_impulse p * eff * G,
                               res_S = par_stroke_ratio p, res_tau_R = par_tau_R p,
                               res_D = par_D p, res_f = par_f p\<rparr>)))))"

subsection \<open>The fast sweep\<close>










subsection \<open>Calibration\<close>

text \<open>
  \<^verbatim>\<open>scipy.optimize.least_squares\<close> is not part of the repository: it is a parameter
  of the model. A solver takes the residual function, the starting point and the bounds
  \<open>(lower, upper)\<close>, and either raises or returns its result object, of which the fields
  \<open>x\<close>, \<open>cost\<close>, \<open>status\<close> and \<open>success\<close> are kept. scipy sets \<open>status\<close> to
  \<open>0\<close> when the budget of function evaluations ran out before a tolerance was met, and
  \<open>success\<close> to \<open>status > 0\<close>.
\<close>

record opt_result =
  opt_x :: "real \<times> real"
  opt_cost :: real
  opt_status :: int
  opt_success :: bool

type_synonym residual_fun = "real \<times> real \<Rightarrow> failure + real list"

type_synonym solver =
  "residual_fun \<Rightarrow> real \<times> real \<Rightarrow> (real \<times> real) \<times> (real \<times> real) \<Rightarrow> failure + opt_result"

text \<open>
  An operation on two one-dimensional numpy arrays: elementwise for equal lengths, an
  array of length one is stretched, and other lengths raise \<open>ValueError\<close>.
\<close>

definition broadcast2 :: "(real \<Rightarrow> real \<Rightarrow> real) \<Rightarrow> real list \<Rightarrow> real list \<Rightarrow> failure + real list" where
  "broadcast2 g xs ys =
     (if length xs = length ys then Inr (map2 g xs ys)
      else if length xs = 1 then Inr (map (g (hd xs)) ys)
      else if length ys = 1 then Inr (map (\<lambda>x. g x (hd ys)) xs)
      else Inl ValueError)"

text \<open>
  \<^verbatim>\<open>def resid(params):
      sigma, kH = params
      eff = np.exp(-0.5*((bench_S-4.0)/sigma)**2)
      H = bench_tauR/(bench_tauR + tau0)
      model = eff*(1.0 + kH*H)
      return model - bench_impulse\<close>

  The three benchmark sequences are one-dimensional numpy arrays. A zero divisor raises
  nothing, so a shape error of the two later lines comes first.
\<close>

definition resid :: "real list \<Rightarrow> real list \<Rightarrow> real list \<Rightarrow> real \<Rightarrow> residual_fun" where
  "resid bench_S bench_tauR bench_impulse tau0 params =
     (let (sigma, kH) = params;
          eff = map (\<lambda>S. exp (- 0.5 * ((S - 4.0) / sigma)\<^sup>2)) bench_S;
          H = map (\<lambda>tau. tau / (tau + tau0)) bench_tauR
      in case broadcast2 (\<lambda>e h. e * (1.0 + kH * h)) eff H of
           Inl e \<Rightarrow> Inl e
         | Inr model \<Rightarrow>
             (case broadcast2 (-) model bench_impulse of
                Inl e \<Rightarrow> Inl e
              | Inr r \<Rightarrow>
                  if (sigma = 0 \<and> bench_S \<noteq> []) \<or> list_ex (\<lambda>tau. tau + tau0 = 0) bench_tauR
                  then Inl NonFinite
                  else Inr r))"

text \<open>
  \<^verbatim>\<open>res = least_squares(resid, x0=np.array(init), bounds=([0.2, 0.0],[5.0, 2.0]))
  sigma_fit, kH_fit = res.x
  return sigma_fit, kH_fit, res.cost\<close>
\<close>

definition fit_sigma_kH ::
  "solver \<Rightarrow> real list \<Rightarrow> real list \<Rightarrow> real list \<Rightarrow> real \<Rightarrow> real \<times> real
     \<Rightarrow> failure + real \<times> real \<times> real"
where
  "fit_sigma_kH least_squares bench_S bench_tauR bench_impulse tau0 init =
     (case least_squares (resid bench_S bench_tauR bench_impulse tau0) init
             ((0.2, 0.0), (5.0, 2.0)) of
        Inl e \<Rightarrow> Inl e
      | Inr res \<Rightarrow>
          (let (sigma_fit, kH_fit) = opt_x res
           in Inr (sigma_fit, kH_fit, opt_cost res)))"

text \<open>
  What scipy documents about the field \<open>cost\<close>: the value of the cost function at the
  returned point, the cost function being half the sum of the squared residuals.
\<close>

definition sum_squares :: "real list \<Rightarrow> real" where
  "sum_squares rs = sum_list (map (\<lambda>r. r\<^sup>2) rs)"

definition reports_scipy_cost :: "solver \<Rightarrow> bool" where
  "reports_scipy_cost least_squares =
     (\<forall>fn x0 bounds res. least_squares fn x0 bounds = Inr res \<longrightarrow>
        (\<exists>rs. fn (opt_x res) = Inr rs \<and> opt_cost res = 0.5 * sum_squares rs))"

text \<open>
  A solver to evaluate the calibration with: it stops at its starting point and reports
  the status it is given, with scipy's \<open>cost\<close> and \<open>success\<close>.
\<close>

definition stalled_solver :: "int \<Rightarrow> solver" where
  "stalled_solver st fn x0 bounds =
     (case fn x0 of
        Inl e \<Rightarrow> Inl e
      | Inr rs \<Rightarrow>
          Inr \<lparr>opt_x = x0, opt_cost = 0.5 * sum_squares rs, opt_status = st,
               opt_success = (st > 0)\<rparr>)"

subsection \<open>Inputs to evaluate the simulator at\<close>

text \<open>The defaults of \<^verbatim>\<open>simulate_cycle\<close> with a negative fluid density.\<close>

definition negative_rho_params :: sim_params where
  "negative_rho_params = default_params\<lparr>par_rho := - 1.2\<rparr>"


section \<open>Properties\<close>

subsection \<open>The gain and the envelope\<close>








subsection \<open>The hysteresis loop\<close>

lemma np_power_abs_Some:
  "np_power \<bar>z\<bar> b = Some v \<Longrightarrow> v * z = (\<bar>z\<bar> powr b) * z \<and> (b \<noteq> 0 \<longrightarrow> v = \<bar>z\<bar> powr b)"
  by (auto simp: np_power_def split: if_splits)

lemma bouc_wen_Some:
  assumes "bouc_wen xd z A b g n = Some r"
  shows "r = A * xd - b * \<bar>xd\<bar> * (\<bar>z\<bar> powr (n - 1)) * z - g * xd * (\<bar>z\<bar> powr n)"
proof -
  from assms obtain p1 p2 where p1: "np_power \<bar>z\<bar> (n - 1) = Some p1"
    and p2: "np_power \<bar>z\<bar> n = Some p2"
    and r: "r = A * xd - b * \<bar>xd\<bar> * p1 * z - g * xd * p2"
    by (auto simp: bouc_wen_def Let_def split: option.splits)
  from p1 have a: "p1 * z = (\<bar>z\<bar> powr (n - 1)) * z"
    using np_power_abs_Some by blast
  have c: "p2 = \<bar>z\<bar> powr n"
  proof (cases "n = 0")
    case False
    with p2 show ?thesis using np_power_abs_Some by blast
  next
    case True
    with p1 have "z \<noteq> 0" by (auto simp: np_power_def split: if_splits)
    with True p2 show ?thesis by (simp add: np_power_def)
  qed
  have "b * \<bar>xd\<bar> * p1 * z = b * \<bar>xd\<bar> * (p1 * z)" by simp
  with a c r show ?thesis by (simp add: mult.assoc)
qed

lemma bouc_wen_total:
  assumes "1 \<le> n"
  shows "\<exists>r. bouc_wen xd z A b g n = Some r"
  using assms by (auto simp: bouc_wen_def np_power_def Let_def)

lemma z_loop_upt:
  "z_loop p xd [a..<b] z = Some z' \<Longrightarrow> 1 \<le> a \<Longrightarrow> b \<le> length z \<Longrightarrow>
     length z' = length z \<and> (\<forall>j<a. z' ! j = z ! j)
     \<and> (\<forall>i. a \<le> i \<and> i < b \<longrightarrow>
          (\<exists>r. bouc_wen (xd ! (i - 1)) (z' ! (i - 1)) (par_A_bw p) (par_beta p) (par_gamma p) (par_n p) = Some r
        \<and> z' ! i = z' ! (i - 1) + r * par_dt p / max (1 / 10 ^ 9) (par_tau_R p)))"
proof (induction "b - a" arbitrary: a z)
  case 0
  then show ?case by auto
next
  case (Suc k)
  then have ab: "a < b" by simp
  then have upt: "[a..<b] = a # [Suc a..<b]" by (simp add: upt_conv_Cons)
  from Suc.prems(1) upt obtain r0 where
    r0: "bouc_wen (xd ! (a - 1)) (z ! (a - 1)) (par_A_bw p) (par_beta p) (par_gamma p) (par_n p) = Some r0"
    and rest: "z_loop p xd [Suc a..<b]
        (z[a := z ! (a - 1) + r0 * par_dt p / max (1 / 10 ^ 9) (par_tau_R p)]) = Some z'"
    by (auto split: option.splits)
  let ?z1 = "z[a := z ! (a - 1) + r0 * par_dt p / max (1 / 10 ^ 9) (par_tau_R p)]"
  have k: "k = b - Suc a" using Suc.hyps(2) by simp
  have ih: "length z' = length ?z1 \<and> (\<forall>j<Suc a. z' ! j = ?z1 ! j)
     \<and> (\<forall>i. Suc a \<le> i \<and> i < b \<longrightarrow>
          (\<exists>r. bouc_wen (xd ! (i - 1)) (z' ! (i - 1)) (par_A_bw p) (par_beta p) (par_gamma p) (par_n p) = Some r
        \<and> z' ! i = z' ! (i - 1) + r * par_dt p / max (1 / 10 ^ 9) (par_tau_R p)))"
    using Suc.hyps(1) [OF k rest] Suc.prems(3) by simp
  have len: "length z' = length z" using ih by simp
  have low: "\<forall>j<a. z' ! j = z ! j"
  proof (intro allI impI)
    fix j assume "j < a"
    then have "z' ! j = ?z1 ! j" using ih by simp
    also have "\<dots> = z ! j" using \<open>j < a\<close> by simp
    finally show "z' ! j = z ! j" .
  qed
  have a_lt: "a < length z" using ab Suc.prems(3) by simp
  have at_a: "z' ! a = z ! (a - 1) + r0 * par_dt p / max (1 / 10 ^ 9) (par_tau_R p)"
    using ih a_lt by simp
  have before_a: "z' ! (a - 1) = z ! (a - 1)"
    using low Suc.prems(2) by simp
  have step: "\<forall>i. a \<le> i \<and> i < b \<longrightarrow>
          (\<exists>r. bouc_wen (xd ! (i - 1)) (z' ! (i - 1)) (par_A_bw p) (par_beta p) (par_gamma p) (par_n p) = Some r
        \<and> z' ! i = z' ! (i - 1) + r * par_dt p / max (1 / 10 ^ 9) (par_tau_R p))"
  proof (intro allI impI)
    fix i assume i: "a \<le> i \<and> i < b"
    show "\<exists>r. bouc_wen (xd ! (i - 1)) (z' ! (i - 1)) (par_A_bw p) (par_beta p) (par_gamma p) (par_n p) = Some r
        \<and> z' ! i = z' ! (i - 1) + r * par_dt p / max (1 / 10 ^ 9) (par_tau_R p)"
    proof (cases "i = a")
      case True
      with r0 at_a before_a show ?thesis by simp
    next
      case False
      with i have "Suc a \<le> i \<and> i < b" by simp
      with ih show ?thesis by blast
    qed
  qed
  from len low step show ?case by blast
qed

lemma z_loop_total:
  "1 \<le> par_n p \<Longrightarrow> \<exists>z'. z_loop p xd is z = Some z'"
proof (induction "is" arbitrary: z)
  case Nil
  then show ?case by simp
next
  case (Cons i "is")
  obtain r where "bouc_wen (xd ! (i - 1)) (z ! (i - 1)) (par_A_bw p) (par_beta p) (par_gamma p) (par_n p) = Some r"
    using bouc_wen_total [OF Cons.prems] by blast
  then show ?case using Cons.IH [OF Cons.prems] by simp
qed

lemma loc_z_Some:
  assumes "loc_z p = Some z"
  shows "length z = length (loc_t p)"
    and "0 < length (loc_t p) \<Longrightarrow> z ! 0 = 0"
    and "1 \<le> i \<Longrightarrow> i < length z \<Longrightarrow>
       z ! i = z ! (i - 1) + par_dt p / max (par_tau_R p) (1 / 10 ^ 9)
         * (par_A_bw p * loc_xdot p ! (i - 1)
            - par_beta p * \<bar>loc_xdot p ! (i - 1)\<bar> * (\<bar>z ! (i - 1)\<bar> powr (par_n p - 1)) * z ! (i - 1)
            - par_gamma p * loc_xdot p ! (i - 1) * (\<bar>z ! (i - 1)\<bar> powr par_n p))"
proof -
  let ?N = "length (loc_t p)"
  from assms have zl: "z_loop p (loc_xdot p) [1..<?N] (replicate ?N 0) = Some z"
    by (simp add: loc_z_def Let_def)
  have inv: "length z = length (replicate ?N (0::real)) \<and> (\<forall>j<1. z ! j = replicate ?N 0 ! j)
     \<and> (\<forall>i. 1 \<le> i \<and> i < ?N \<longrightarrow>
          (\<exists>r. bouc_wen (loc_xdot p ! (i - 1)) (z ! (i - 1)) (par_A_bw p) (par_beta p) (par_gamma p) (par_n p) = Some r
        \<and> z ! i = z ! (i - 1) + r * par_dt p / max (1 / 10 ^ 9) (par_tau_R p)))"
    by (rule z_loop_upt [OF zl]) simp_all
  show len: "length z = ?N" using inv by simp
  show "0 < ?N \<Longrightarrow> z ! 0 = 0" using inv by simp
  assume i: "1 \<le> i" "i < length z"
  with len have "1 \<le> i \<and> i < ?N" by simp
  with inv obtain r where
    r: "bouc_wen (loc_xdot p ! (i - 1)) (z ! (i - 1)) (par_A_bw p) (par_beta p) (par_gamma p) (par_n p) = Some r"
    and zi: "z ! i = z ! (i - 1) + r * par_dt p / max (1 / 10 ^ 9) (par_tau_R p)"
    by blast
  from zi bouc_wen_Some [OF r]
  show "z ! i = z ! (i - 1) + par_dt p / max (par_tau_R p) (1 / 10 ^ 9)
         * (par_A_bw p * loc_xdot p ! (i - 1)
            - par_beta p * \<bar>loc_xdot p ! (i - 1)\<bar> * (\<bar>z ! (i - 1)\<bar> powr (par_n p - 1)) * z ! (i - 1)
            - par_gamma p * loc_xdot p ! (i - 1) * (\<bar>z ! (i - 1)\<bar> powr par_n p))"
    by (simp add: max.commute)
qed

subsection \<open>When a run returns\<close>

lemma length_loc_t: "length (loc_t p) = nat \<lceil>loc_duration p / par_dt p\<rceil>"
  by (simp add: loc_t_def arange_def)

lemma length_loc_xdot: "length (loc_xdot p) = length (loc_t p)"
  by (simp add: loc_xdot_def)

lemma length_loc_dV: "length (loc_dV p) = length (loc_t p)"
  by (simp add: loc_dV_def loc_x_def)

lemma loc_gradient_Inr:
  "2 \<le> length (loc_t p) - loc_idx0 p \<Longrightarrow> \<exists>g. loc_gradient p = Inr g"
  by (simp add: loc_gradient_def gradient_def Let_def length_loc_dV)


lemma loc_gradient_InrD:
  "loc_gradient p = Inr g \<Longrightarrow> 2 \<le> length (loc_t p) - loc_idx0 p"
  by (simp add: loc_gradient_def gradient_def Let_def length_loc_dV split: if_splits)

lemma simulate_cycle_InrD:
  assumes "simulate_cycle p = Inr r"
  shows "0 \<le> par_seed p" and "par_f p \<noteq> 0" and "par_dt p \<noteq> 0"
    and "2 \<le> length (loc_t p) - loc_idx0 p"
    and "par_tau_R p + 0.5 \<noteq> 0" and "loc_A0 p \<noteq> 0"
    and "loc_z p = Some (res_z r)"
    and "res_t r = loc_t p" and "res_xdot r = loc_xdot p"
    and "res_impulse_raw r = loc_impulse p"
    and "res_impulse r = loc_impulse p * exp (- 0.5 * ((par_stroke_ratio p - 4.0) / 1.0)\<^sup>2)
           * (1.0 + 0.6 * (par_tau_R p / (par_tau_R p + 0.5)))"
  using assms
  by (auto simp: simulate_cycle_def formation_envelope_def hysteresis_gain_def Let_def
      dest: loc_gradient_InrD split: if_splits option.splits sum.splits)

lemma simulate_cycle_returns:
  assumes "0 \<le> par_seed p" and "par_f p \<noteq> 0" and "par_dt p \<noteq> 0"
    and "2 \<le> length (loc_t p) - loc_idx0 p"
    and "par_tau_R p + 0.5 \<noteq> 0" and "1 \<le> par_n p" and "par_D p \<noteq> 0"
  shows "\<exists>r. simulate_cycle p = Inr r"
proof -
  have "\<exists>z. loc_z p = Some z"
    unfolding loc_z_def Let_def by (rule z_loop_total [OF assms(6)])
  then obtain z where z: "loc_z p = Some z" ..
  obtain g where a: "loc_gradient p = Inr g"
    using loc_gradient_Inr [OF assms(4)] by blast
  have A0: "loc_A0 p \<noteq> 0" using assms(7) by (simp add: loc_A0_def)
  show ?thesis
    using assms(1,2,3,5) z a A0
    by (simp add: simulate_cycle_def formation_envelope_def hysteresis_gain_def Let_def)
qed

lemma default_length: "length (loc_t default_params) = 6667"
  by (simp add: length_loc_t loc_duration_def loc_T_def default_params_def)

lemma default_idx0: "loc_idx0 default_params = 5333"
  by (simp add: loc_idx0_def default_length)

lemma default_returns: "\<exists>r. simulate_cycle default_params = Inr r"
proof (rule simulate_cycle_returns)
  show "2 \<le> length (loc_t default_params) - loc_idx0 default_params"
    by (simp add: default_length default_idx0)
qed (simp_all add: default_params_def)

lemma np_power_sign:
  assumes "1 \<le> n"
  shows "\<exists>pw. np_power \<bar>v\<bar> (n - 1) = Some pw \<and> sgn (pw * v) = sgn v"
proof (cases "v = 0")
  case True
  with assms show ?thesis by (auto simp: np_power_def)
next
  case False
  then have "0 < \<bar>v\<bar> powr (n - 1)" by simp
  then have "sgn (\<bar>v\<bar> powr (n - 1) * v) = sgn v"
    by (simp add: sgn_mult)
  with False show ?thesis by (auto simp: np_power_def)
qed

text \<open>
  Claim C1. In every run of \<^verbatim>\<open>simulate_cycle\<close> the hysteretic state \<open>z\<close> has one
  entry for each time sample, \<open>z[0] = 0\<close>, and for every index \<open>i \<ge> 1\<close>
  \<open>z[i] = z[i-1] + dt/max(tau_R, 1e-9) * (A*xdot[i-1] - beta*|xdot[i-1]|*|z[i-1]|^(n-1)*z[i-1]
  - gamma*xdot[i-1]*|z[i-1]|^n)\<close>. The loop ends with such a \<open>z\<close> for every exponent
  \<open>n \<ge> 1\<close>; the \<open>z\<close> and \<open>xdot\<close> of a returned run are this state and the drive
  velocity it was computed from. For every \<open>n \<ge> 1\<close>, integral or not, the power
  \<open>|z| ** (n-1)\<close> of the code is finite and \<open>|z| ** (n-1) * z\<close> has the sign of \<open>z\<close>.
\<close>

theorem simulate_cycle_z_recurrence:
  "(1 \<le> par_n p \<longrightarrow> (\<exists>z. loc_z p = Some z))
   \<and> (\<forall>z. loc_z p = Some z \<longrightarrow>
         length z = length (loc_t p)
         \<and> (0 < length z \<longrightarrow> z ! 0 = 0)
         \<and> (\<forall>i. 1 \<le> i \<and> i < length z \<longrightarrow>
               z ! i = z ! (i - 1) + par_dt p / max (par_tau_R p) (1 / 10 ^ 9)
                 * (par_A_bw p * loc_xdot p ! (i - 1)
                    - par_beta p * \<bar>loc_xdot p ! (i - 1)\<bar>
                        * (\<bar>z ! (i - 1)\<bar> powr (par_n p - 1)) * z ! (i - 1)
                    - par_gamma p * loc_xdot p ! (i - 1) * (\<bar>z ! (i - 1)\<bar> powr par_n p))))
   \<and> (\<forall>r. simulate_cycle p = Inr r \<longrightarrow>
         loc_z p = Some (res_z r) \<and> res_xdot r = loc_xdot p \<and> res_t r = loc_t p
         \<and> 0 < length (res_z r))
   \<and> (\<forall>n v. 1 \<le> n \<longrightarrow> (\<exists>pw. np_power \<bar>v\<bar> (n - 1) = Some pw \<and> sgn (pw * v) = sgn v))"
proof (intro conjI allI impI)
  assume "1 \<le> par_n p"
  then show "\<exists>z. loc_z p = Some z"
    unfolding loc_z_def Let_def by (rule z_loop_total)
next
  fix z assume z: "loc_z p = Some z"
  show "length z = length (loc_t p)" by (rule loc_z_Some(1) [OF z])
  {
    assume "0 < length z"
    then have "0 < length (loc_t p)" by (simp only: loc_z_Some(1) [OF z])
    then show "z ! 0 = 0" by (rule loc_z_Some(2) [OF z])
  }
  fix i assume "1 \<le> i \<and> i < length z"
  then show "z ! i = z ! (i - 1) + par_dt p / max (par_tau_R p) (1 / 10 ^ 9)
                 * (par_A_bw p * loc_xdot p ! (i - 1)
                    - par_beta p * \<bar>loc_xdot p ! (i - 1)\<bar>
                        * (\<bar>z ! (i - 1)\<bar> powr (par_n p - 1)) * z ! (i - 1)
                    - par_gamma p * loc_xdot p ! (i - 1) * (\<bar>z ! (i - 1)\<bar> powr par_n p))"
    using loc_z_Some(3) [OF z, of i] by blast
next
  fix r assume r: "simulate_cycle p = Inr r"
  note d = simulate_cycle_InrD [OF r]
  show "loc_z p = Some (res_z r)" by (rule d(7))
  show "res_xdot r = loc_xdot p" by (rule d(9))
  show "res_t r = loc_t p" by (rule d(8))
  have "0 < length (loc_t p)" using d(4) by (cases "loc_t p") simp_all
  then show "0 < length (res_z r)" by (simp only: loc_z_Some(1) [OF d(7)])
next
  fix n v :: real
  assume "1 \<le> n"
  then show "\<exists>pw. np_power \<bar>v\<bar> (n - 1) = Some pw \<and> sgn (pw * v) = sgn v"
    by (rule np_power_sign)
qed

theorem simulate_cycle_z_recurrence_witness:
  "\<not> isl (simulate_cycle default_params)
   \<and> loc_z default_params = Some (res_z (projr (simulate_cycle default_params)))
   \<and> length (res_z (projr (simulate_cycle default_params))) = 6667
   \<and> res_z (projr (simulate_cycle default_params)) ! 0 = 0
   \<and> res_z (projr (simulate_cycle default_params)) ! 1 =
       1 / 10 ^ 5 / 2 * res_xdot (projr (simulate_cycle default_params)) ! 0
   \<and> (\<exists>pw. np_power \<bar>- 3\<bar> (1.5 - 1) = Some pw \<and> sgn (pw * (- 3)) = sgn (- 3 :: real))"
proof -
  note th = simulate_cycle_z_recurrence [of default_params]
  obtain r where r: "simulate_cycle default_params = Inr r"
    using default_returns by blast
  from th r have z: "loc_z default_params = Some (res_z r)"
    and xd: "res_xdot r = loc_xdot default_params" by blast+
  from th z have len: "length (res_z r) = 6667"
    using default_length by simp
  have "0 < length (res_z r)" using len by simp
  with th z have z0: "res_z r ! 0 = 0" by blast
  have "1 \<le> (1::nat) \<and> 1 < length (res_z r)" using len by simp
  with th z have "res_z r ! 1 = res_z r ! (1 - 1)
        + par_dt default_params / max (par_tau_R default_params) (1 / 10 ^ 9)
            * (par_A_bw default_params * loc_xdot default_params ! (1 - 1)
               - par_beta default_params * \<bar>loc_xdot default_params ! (1 - 1)\<bar>
                   * (\<bar>res_z r ! (1 - 1)\<bar> powr (par_n default_params - 1)) * res_z r ! (1 - 1)
               - par_gamma default_params * loc_xdot default_params ! (1 - 1)
                   * (\<bar>res_z r ! (1 - 1)\<bar> powr par_n default_params))"
    by blast
  with z0 xd have z1: "res_z r ! 1 = 1 / 10 ^ 5 / 2 * res_xdot r ! 0"
    by (simp add: default_params_def)
  have "(1::real) \<le> 1.5" by simp
  with th have sg: "\<exists>pw. np_power \<bar>- 3\<bar> (1.5 - 1) = Some pw \<and> sgn (pw * (- 3)) = sgn (- 3 :: real)"
    by blast
  from r z len z0 z1 sg show ?thesis by simp
qed

subsection \<open>The effective impulse\<close>

text \<open>
  Claim C10. In every run that \<^verbatim>\<open>simulate_cycle\<close> returns, the effective impulse is
  \<open>impulse_raw * exp(-0.5*((S-4.0)/1.0)^2) * (1 + 0.6*tau_R/(tau_R + 0.5))\<close> for the
  stroke ratio \<open>S\<close> and the return time \<open>tau_R\<close> of the call, which are the \<open>S\<close> and
  \<open>tau_R\<close> of the returned dictionary: the width \<open>1.0\<close>, the peak \<open>4.0\<close>, the gain
  coefficient \<open>0.6\<close> and \<open>tau0 = 0.5\<close> are constants of the function, and no argument
  of it changes them.
\<close>

theorem effective_impulse_fixed:
  assumes "simulate_cycle p = Inr r"
  shows "res_S r = par_stroke_ratio p \<and> res_tau_R r = par_tau_R p
    \<and> res_impulse r =
        res_impulse_raw r * exp (- 0.5 * ((par_stroke_ratio p - 4.0) / 1.0)\<^sup>2)
          * (1 + 0.6 * par_tau_R p / (par_tau_R p + 0.5))"
proof -
  have "res_S r = par_stroke_ratio p \<and> res_tau_R r = par_tau_R p"
    using assms
    by (auto simp: simulate_cycle_def Let_def split: if_splits option.splits sum.splits)
  moreover have "res_impulse r =
        res_impulse_raw r * exp (- 0.5 * ((par_stroke_ratio p - 4.0) / 1.0)\<^sup>2)
          * (1 + 0.6 * par_tau_R p / (par_tau_R p + 0.5))"
    using simulate_cycle_InrD(10,11) [OF assms] by simp
  ultimately show ?thesis by blast
qed

theorem effective_impulse_fixed_witness:
  "\<not> isl (simulate_cycle default_params)
   \<and> res_impulse (projr (simulate_cycle default_params)) =
       res_impulse_raw (projr (simulate_cycle default_params)) * 1.48"
proof -
  obtain r where r: "simulate_cycle default_params = Inr r"
    using default_returns by blast
  from effective_impulse_fixed [OF r]
  have "res_impulse r = res_impulse_raw r * 1.48"
    by (simp add: default_params_def)
  with r show ?thesis by simp
qed

subsection \<open>Thrust\<close>

lemma length_loc_out: "length (loc_out p) = length (loc_t p)"
  by (simp add: loc_out_def length_loc_xdot)

lemma length_loc_u_exit: "length (loc_u_exit p) = length (loc_t p)"
  by (simp add: loc_u_exit_def loc_u_def length_loc_out length_loc_xdot)

lemma length_loc_thrust_inst: "length (loc_thrust_inst p) = length (loc_t p)"
  by (simp add: loc_thrust_inst_def length_loc_out length_loc_u_exit)

lemma loc_u_exit_nth:
  "i < length (loc_t p) \<Longrightarrow>
     loc_u_exit p ! i = 0.8 * (loc_xdot p ! i / loc_A0 p * (if loc_xdot p ! i > 0 then 1 else 0))"
  by (simp add: loc_u_exit_def loc_u_def loc_out_def length_loc_xdot)

lemma loc_thrust_inst_nth:
  "i < length (loc_t p) \<Longrightarrow>
     loc_thrust_inst p ! i =
       1.0 * par_rho p * loc_A0 p * (loc_u_exit p ! i)\<^sup>2 * (if loc_xdot p ! i > 0 then 1 else 0)"
  by (simp add: loc_thrust_inst_def loc_out_def length_loc_xdot length_loc_u_exit)

lemma loc_A0_nonneg: "0 \<le> loc_A0 p"
  by (simp add: loc_A0_def)

lemma cos_3pi: "cos (3 * pi) = - 1"
proof -
  have "cos (3 * pi) = cos (pi + 2 * pi)" by simp
  also have "\<dots> = cos pi" by (simp only: cos_periodic)
  finally show ?thesis by simp
qed

lemma loc_t_nth: "i < length (loc_t p) \<Longrightarrow> loc_t p ! i = real i * par_dt p"
  by (simp add: loc_t_def arange_def)

lemma loc_xdot_nth:
  "i < length (loc_t p) \<Longrightarrow>
     loc_xdot p ! i = 2 * pi * par_f p * loc_x_amp p * cos (2 * pi * par_f p * (real i * par_dt p))"
  by (simp add: loc_xdot_def loc_t_nth)

lemma default_xdot_0: "loc_xdot default_params ! 0 = 6 * pi"
  using loc_xdot_nth [of 0 default_params]
  by (simp add: default_length) (simp add: default_params_def loc_x_amp_def loc_L0_def)

lemma default_xdot_1000: "loc_xdot default_params ! 1000 = - (6 * pi)"
proof -
  have "2 * pi * par_f default_params * (real 1000 * par_dt default_params) = 3 * pi"
    by (simp add: default_params_def)
  then have "cos (2 * pi * par_f default_params * (real 1000 * par_dt default_params)) = - 1"
    by (simp only: cos_3pi)
  moreover have "(1000::nat) < length (loc_t default_params)"
    by (simp add: default_length)
  moreover have "2 * pi * par_f default_params * loc_x_amp default_params = 6 * pi"
    by (simp add: default_params_def loc_x_amp_def loc_L0_def)
  ultimately show ?thesis
    by (simp only: loc_xdot_nth)
qed

lemma neg_rho_length: "length (loc_t negative_rho_params) = 6667"
  by (simp add: length_loc_t loc_duration_def loc_T_def default_params_def negative_rho_params_def)

lemma neg_rho_idx0: "loc_idx0 negative_rho_params = 5333"
  by (simp add: loc_idx0_def neg_rho_length)

lemma neg_rho_returns: "\<exists>r. simulate_cycle negative_rho_params = Inr r"
proof (rule simulate_cycle_returns)
  show "2 \<le> length (loc_t negative_rho_params) - loc_idx0 negative_rho_params"
    by (simp add: neg_rho_length neg_rho_idx0)
qed (simp_all add: default_params_def negative_rho_params_def)

lemma neg_rho_xdot_0: "loc_xdot negative_rho_params ! 0 = 6 * pi"
  using loc_xdot_nth [of 0 negative_rho_params]
  by (simp add: neg_rho_length) (simp add: default_params_def negative_rho_params_def loc_x_amp_def loc_L0_def)

text \<open>
  Claim C5, as the code has it. In every run of \<^verbatim>\<open>simulate_cycle\<close> with a diameter
  other than \<open>0\<close>, the instantaneous thrust and the exit velocity have one entry for each
  time sample; the thrust is \<open>\<ge> 0\<close> at every sample when the fluid density \<open>rho\<close> is
  \<open>\<ge> 0\<close>; and thrust and exit velocity are exactly \<open>0\<close> at every sample where the
  drive velocity \<open>xdot\<close> is not strictly positive. Every returned run is such a run, and
  its \<open>t\<close> and \<open>xdot\<close> are the ones meant. The density is an argument that the code
  does not check, and the thrust has its sign on the outstroke.
\<close>

theorem thrust_gated_nonneg:
  "(par_D p \<noteq> 0 \<longrightarrow>
      length (loc_thrust_inst p) = length (loc_t p)
      \<and> length (loc_u_exit p) = length (loc_t p)
      \<and> (\<forall>i. i < length (loc_t p) \<longrightarrow>
            (0 \<le> par_rho p \<longrightarrow> 0 \<le> loc_thrust_inst p ! i)
            \<and> (\<not> 0 < loc_xdot p ! i \<longrightarrow> loc_thrust_inst p ! i = 0 \<and> loc_u_exit p ! i = 0)))
   \<and> (\<forall>r. simulate_cycle p = Inr r \<longrightarrow>
         par_D p \<noteq> 0 \<and> res_t r = loc_t p \<and> res_xdot r = loc_xdot p)"
proof (intro conjI allI impI)
  show "length (loc_thrust_inst p) = length (loc_t p)"
    by (rule length_loc_thrust_inst)
  show "length (loc_u_exit p) = length (loc_t p)"
    by (rule length_loc_u_exit)
next
  fix i
  assume i: "i < length (loc_t p)"
  {
    assume "0 \<le> par_rho p"
    then have "0 \<le> par_rho p * loc_A0 p * (loc_u_exit p ! i)\<^sup>2"
      by (intro mult_nonneg_nonneg loc_A0_nonneg) simp_all
    then show "0 \<le> loc_thrust_inst p ! i"
      by (simp add: loc_thrust_inst_nth [OF i])
  }
  {
    assume n: "\<not> 0 < loc_xdot p ! i"
    from n show "loc_thrust_inst p ! i = 0"
      by (simp add: loc_thrust_inst_nth [OF i])
    from n show "loc_u_exit p ! i = 0"
      by (simp add: loc_u_exit_nth [OF i])
  }
next
  fix r assume r: "simulate_cycle p = Inr r"
  note d = simulate_cycle_InrD [OF r]
  from d(6) show "par_D p \<noteq> 0" by (auto simp: loc_A0_def)
  show "res_t r = loc_t p" by (rule d(8))
  show "res_xdot r = loc_xdot p" by (rule d(9))
qed

theorem thrust_gated_nonneg_witness:
  "\<not> isl (simulate_cycle default_params)
   \<and> length (loc_thrust_inst default_params) = 6667
   \<and> 0 \<le> loc_thrust_inst default_params ! 0
   \<and> \<not> 0 < res_xdot (projr (simulate_cycle default_params)) ! 1000
   \<and> loc_thrust_inst default_params ! 1000 = 0 \<and> loc_u_exit default_params ! 1000 = 0"
proof -
  note th = thrust_gated_nonneg [of default_params]
  obtain r where r: "simulate_cycle default_params = Inr r"
    using default_returns by blast
  from th r have D: "par_D default_params \<noteq> 0"
    and xd: "res_xdot r = loc_xdot default_params" by blast+
  have rho: "0 \<le> par_rho default_params" by (simp add: default_params_def)
  have neg: "\<not> 0 < loc_xdot default_params ! 1000" by (simp add: default_xdot_1000)
  have i0: "(0::nat) < length (loc_t default_params)" by (simp add: default_length)
  have i1: "(1000::nat) < length (loc_t default_params)" by (simp add: default_length)
  from th D i0 rho have a: "0 \<le> loc_thrust_inst default_params ! 0" by blast
  from th D i1 neg have b: "loc_thrust_inst default_params ! 1000 = 0 \<and> loc_u_exit default_params ! 1000 = 0"
    by blast
  from th D have c: "length (loc_thrust_inst default_params) = 6667"
    using default_length by simp
  from r a b c neg xd show ?thesis by simp
qed

text \<open>
  With the defaults and \<open>rho = -1.2\<close> the run returns, the first sample is on the
  outstroke, and its thrust is negative.
\<close>

theorem thrust_negative_density_counterexample:
  "\<not> isl (simulate_cycle negative_rho_params)
   \<and> 0 < loc_xdot negative_rho_params ! 0
   \<and> loc_thrust_inst negative_rho_params ! 0 < 0"
proof -
  obtain r where r: "simulate_cycle negative_rho_params = Inr r"
    using neg_rho_returns by blast
  have i: "0 < length (loc_t negative_rho_params)" by (simp add: neg_rho_length)
  have x: "0 < loc_xdot negative_rho_params ! 0" by (simp add: neg_rho_xdot_0)
  have A0: "loc_A0 negative_rho_params = pi / 40000"
    by (simp add: loc_A0_def default_params_def negative_rho_params_def power2_eq_square)
  have u: "loc_u_exit negative_rho_params ! 0 = 192000"
    by (simp add: loc_u_exit_nth [OF i] neg_rho_xdot_0 A0)
  have "loc_thrust_inst negative_rho_params ! 0 = - 1.2 * (pi / 40000) * 192000\<^sup>2"
    by (simp add: loc_thrust_inst_nth [OF i] u A0 neg_rho_xdot_0)
       (simp add: default_params_def negative_rho_params_def)
  also have "\<dots> < 0" by simp
  finally have t: "loc_thrust_inst negative_rho_params ! 0 < 0" .
  from r x t show ?thesis by simp
qed

subsection \<open>Arguments that are not checked\<close>







subsection \<open>The seed\<close>

lemma z_loop_seed: "z_loop (p\<lparr>par_seed := s\<rparr>) xd is z = z_loop p xd is z"
  by (induction "is" arbitrary: z) (simp_all split: option.splits)

lemma loc_t_seed: "loc_t (p\<lparr>par_seed := s\<rparr>) = loc_t p"
  by (simp add: loc_t_def loc_duration_def loc_T_def)

lemma loc_x_seed: "loc_x (p\<lparr>par_seed := s\<rparr>) = loc_x p"
  by (simp add: loc_x_def loc_x_amp_def loc_L0_def loc_t_seed)

lemma loc_xdot_seed: "loc_xdot (p\<lparr>par_seed := s\<rparr>) = loc_xdot p"
  by (simp add: loc_xdot_def loc_x_amp_def loc_L0_def loc_t_seed)

lemma loc_z_seed: "loc_z (p\<lparr>par_seed := s\<rparr>) = loc_z p"
  by (simp add: loc_z_def loc_t_seed loc_xdot_seed z_loop_seed)

lemma loc_A0_seed: "loc_A0 (p\<lparr>par_seed := s\<rparr>) = loc_A0 p"
  by (simp add: loc_A0_def)

lemma loc_dV_seed: "loc_dV (p\<lparr>par_seed := s\<rparr>) = loc_dV p"
  by (simp add: loc_dV_def loc_A0_seed loc_x_seed)

lemma loc_p_seed: "loc_p (p\<lparr>par_seed := s\<rparr>) z = loc_p p z"
  by (simp add: loc_p_def loc_k1_def loc_k2_def loc_x_seed)

lemma loc_idx0_seed: "loc_idx0 (p\<lparr>par_seed := s\<rparr>) = loc_idx0 p"
  by (simp add: loc_idx0_def loc_t_seed)

lemma loc_gradient_seed: "loc_gradient (p\<lparr>par_seed := s\<rparr>) = loc_gradient p"
  by (simp only: loc_gradient_def loc_idx0_seed loc_dV_seed loc_t_seed)

lemma loc_A_loop_seed: "loc_A_loop (p\<lparr>par_seed := s\<rparr>) z g = loc_A_loop p z g"
  by (simp only: loc_A_loop_def loc_idx0_seed loc_t_seed loc_p_seed)

lemma loc_out_seed: "loc_out (p\<lparr>par_seed := s\<rparr>) = loc_out p"
  by (simp add: loc_out_def loc_xdot_seed)

lemma loc_u_exit_seed: "loc_u_exit (p\<lparr>par_seed := s\<rparr>) = loc_u_exit p"
  by (simp add: loc_u_exit_def loc_u_def loc_out_seed loc_xdot_seed loc_A0_seed)

lemma loc_thrust_inst_seed: "loc_thrust_inst (p\<lparr>par_seed := s\<rparr>) = loc_thrust_inst p"
  by (simp add: loc_thrust_inst_def loc_u_exit_seed loc_out_seed loc_A0_seed)

lemma loc_impulse_seed: "loc_impulse (p\<lparr>par_seed := s\<rparr>) = loc_impulse p"
  by (simp add: loc_impulse_def loc_thrust_inst_seed loc_t_seed)

lemmas locals_seed = loc_t_seed loc_x_seed loc_xdot_seed loc_z_seed loc_A0_seed loc_dV_seed
  loc_p_seed loc_idx0_seed loc_gradient_seed loc_A_loop_seed loc_impulse_seed

lemma simulate_cycle_seed:
  "0 \<le> s \<Longrightarrow> simulate_cycle (p\<lparr>par_seed := s\<rparr>) = simulate_cycle (p\<lparr>par_seed := 0\<rparr>)"
  by (simp add: simulate_cycle_def locals_seed cong: sum.case_cong option.case_cong if_cong)

text \<open>
  Claim C9, as the code has it. \<^verbatim>\<open>simulate_cycle\<close> is a function of its arguments
  (two calls with the same arguments give the same result), and its result is the same
  for any two seeds that are not negative, all other arguments equal: no formula reads
  the generator. A negative seed is refused by the constructor of the generator with
  \<open>ValueError\<close>, whatever the other arguments are.
\<close>

theorem simulate_cycle_deterministic:
  "(0 \<le> s1 \<and> 0 \<le> s2 \<longrightarrow>
      simulate_cycle (p\<lparr>par_seed := s1\<rparr>) = simulate_cycle (p\<lparr>par_seed := s2\<rparr>))
   \<and> (s1 < 0 \<longrightarrow> simulate_cycle (p\<lparr>par_seed := s1\<rparr>) = Inl ValueError)"
proof (intro conjI impI)
  assume "0 \<le> s1 \<and> 0 \<le> s2"
  then show "simulate_cycle (p\<lparr>par_seed := s1\<rparr>) = simulate_cycle (p\<lparr>par_seed := s2\<rparr>)"
    using simulate_cycle_seed [of s1 p] simulate_cycle_seed [of s2 p] by simp
next
  assume "s1 < 0"
  then show "simulate_cycle (p\<lparr>par_seed := s1\<rparr>) = Inl ValueError"
    by (simp add: simulate_cycle_def)
qed

theorem simulate_cycle_deterministic_witness:
  "simulate_cycle (default_params\<lparr>par_seed := 417\<rparr>) = simulate_cycle (default_params\<lparr>par_seed := 7\<rparr>)
   \<and> simulate_cycle (default_params\<lparr>par_seed := - 5\<rparr>) = Inl ValueError"
proof -
  have "simulate_cycle (default_params\<lparr>par_seed := 417\<rparr>) = simulate_cycle (default_params\<lparr>par_seed := 7\<rparr>)"
    using simulate_cycle_deterministic [of 417 7 default_params] by simp
  moreover have "simulate_cycle (default_params\<lparr>par_seed := - 5\<rparr>) = Inl ValueError"
    using simulate_cycle_deterministic [of "- 5" 0 default_params] by simp
  ultimately show ?thesis by blast
qed

text \<open>
  The defaults with the seed \<open>-1\<close> raise \<open>ValueError\<close>; with the seed \<open>417\<close> they
  return.
\<close>

theorem negative_seed_counterexample:
  "simulate_cycle (default_params\<lparr>par_seed := - 1\<rparr>) = Inl ValueError
   \<and> \<not> isl (simulate_cycle (default_params\<lparr>par_seed := 417\<rparr>))"
proof -
  have "simulate_cycle (default_params\<lparr>par_seed := - 1\<rparr>) = Inl ValueError"
    by (simp add: simulate_cycle_def)
  moreover have "default_params\<lparr>par_seed := 417\<rparr> = default_params"
    by (simp add: default_params_def)
  ultimately show ?thesis using default_returns by auto
qed

subsection \<open>The sweep against the envelope and the gain\<close>











subsection \<open>Calibration: what reaches the caller\<close>

lemma stalled_solver_cost: "reports_scipy_cost (stalled_solver st)"
  by (auto simp: reports_scipy_cost_def stalled_solver_def split: sum.splits)

lemma resid_bench: "resid [4] [0.5] [1.5] 0.5 (1, 0.6) = Inr [- 0.2]"
  by (simp add: resid_def broadcast2_def)

lemma stalled_bench:
  "stalled_solver st (resid [4] [0.5] [1.5] 0.5) (1, 0.6) ((0.2, 0.0), (5.0, 2.0)) =
     Inr \<lparr>opt_x = (1, 0.6), opt_cost = 0.02, opt_status = st, opt_success = (st > 0)\<rparr>"
  unfolding stalled_solver_def resid_bench
  by (simp add: sum_squares_def power2_eq_square)

lemma fit_stalled_bench:
  "fit_sigma_kH (stalled_solver st) [4] [0.5] [1.5] 0.5 (1, 0.6) = Inr (1, 0.6, 0.02)"
  unfolding fit_sigma_kH_def stalled_bench by simp

text \<open>
  Claim C3, as the code has it. \<^verbatim>\<open>fit_sigma_kH\<close> returns the point and the cost of the
  solver's result object and nothing else: two solver results with the same point and
  the same cost give the same return value, whatever their \<open>status\<close> and \<open>success\<close>
  are. A run of the solver that did not converge is returned as its last iterate and the
  cost there, in the form of a fit.
\<close>

theorem fit_drops_solver_status:
  assumes "ls1 (resid bench_S bench_tauR bench_impulse tau0) init ((0.2, 0.0), (5.0, 2.0)) = Inr r1"
    and "ls2 (resid bench_S bench_tauR bench_impulse tau0) init ((0.2, 0.0), (5.0, 2.0)) = Inr r2"
    and "opt_x r1 = opt_x r2" and "opt_cost r1 = opt_cost r2"
  shows "fit_sigma_kH ls1 bench_S bench_tauR bench_impulse tau0 init =
           Inr (fst (opt_x r1), snd (opt_x r1), opt_cost r1)
    \<and> fit_sigma_kH ls2 bench_S bench_tauR bench_impulse tau0 init =
           fit_sigma_kH ls1 bench_S bench_tauR bench_impulse tau0 init"
  using assms by (simp add: fit_sigma_kH_def split: prod.splits)

theorem fit_drops_solver_status_witness:
  "fit_sigma_kH (stalled_solver 0) [4] [0.5] [1.5] 0.5 (1, 0.6) = Inr (1, 0.6, 0.02)
   \<and> fit_sigma_kH (stalled_solver 2) [4] [0.5] [1.5] 0.5 (1, 0.6)
       = fit_sigma_kH (stalled_solver 0) [4] [0.5] [1.5] 0.5 (1, 0.6)"
proof -
  note th = fit_drops_solver_status [where ?ls1.0 = "stalled_solver 0" and ?ls2.0 = "stalled_solver 2"
      and bench_S = "[4]" and bench_tauR = "[0.5]" and bench_impulse = "[1.5]" and ?tau0.0 = "0.5"
      and init = "(1, 0.6)", OF stalled_bench stalled_bench]
  from th show ?thesis by simp
qed

text \<open>
  A solver that stops at the starting point \<open>(1, 0.6)\<close> with \<open>status = 0\<close> (not
  converged; the benchmark point is matched by \<open>k_H = 1\<close>, not \<open>0.6\<close>) and one that
  reports \<open>status = 1\<close> there: the calibration returns the same triple for both.
\<close>

theorem nonconvergence_hidden_counterexample:
  "\<not> opt_success (projr (stalled_solver 0 (resid [4] [0.5] [1.5] 0.5) (1, 0.6) ((0.2, 0.0), (5.0, 2.0))))
   \<and> opt_success (projr (stalled_solver 1 (resid [4] [0.5] [1.5] 0.5) (1, 0.6) ((0.2, 0.0), (5.0, 2.0))))
   \<and> fit_sigma_kH (stalled_solver 0) [4] [0.5] [1.5] 0.5 (1, 0.6) = Inr (1, 0.6, 0.02)
   \<and> fit_sigma_kH (stalled_solver 1) [4] [0.5] [1.5] 0.5 (1, 0.6) = Inr (1, 0.6, 0.02)"
  unfolding stalled_bench fit_stalled_bench by simp

text \<open>
  Claim C4, as the code has it. For every benchmark dataset and every solver that reports
  scipy's \<open>cost\<close>, the third value returned by \<^verbatim>\<open>fit_sigma_kH\<close> is one half of the
  sum of the squared residuals of the surrogate model, evaluated at the returned
  \<open>(sigma, k_H)\<close> against the benchmark impulses.
\<close>

theorem fit_cost_half_squares:
  assumes "reports_scipy_cost least_squares"
    and "fit_sigma_kH least_squares bench_S bench_tauR bench_impulse tau0 init
           = Inr (sigma_fit, kH_fit, cost)"
  shows "\<exists>rs. resid bench_S bench_tauR bench_impulse tau0 (sigma_fit, kH_fit) = Inr rs
           \<and> cost = 0.5 * sum_squares rs"
proof -
  from assms(2) obtain res where
    res: "least_squares (resid bench_S bench_tauR bench_impulse tau0) init ((0.2, 0.0), (5.0, 2.0)) = Inr res"
    and x: "opt_x res = (sigma_fit, kH_fit)" and c: "opt_cost res = cost"
    by (auto simp: fit_sigma_kH_def split: sum.splits prod.splits)
  from assms(1) res obtain rs where
    "resid bench_S bench_tauR bench_impulse tau0 (opt_x res) = Inr rs"
    and "opt_cost res = 0.5 * sum_squares rs"
    unfolding reports_scipy_cost_def by blast
  with x c show ?thesis by simp
qed

theorem fit_cost_half_squares_witness:
  "\<exists>rs. resid [4] [0.5] [1.5] 0.5 (1, 0.6) = Inr rs \<and> (0.02::real) = 0.5 * sum_squares rs"
  by (rule fit_cost_half_squares [OF stalled_solver_cost fit_stalled_bench [of 1]])

text \<open>
  One benchmark point with the residual \<open>-0.2\<close>: the sum of squares is \<open>0.04\<close>, the
  third value returned is \<open>0.02\<close>.
\<close>

theorem fit_cost_not_sum_of_squares_counterexample:
  "reports_scipy_cost (stalled_solver 1)
   \<and> fit_sigma_kH (stalled_solver 1) [4] [0.5] [1.5] 0.5 (1, 0.6) = Inr (1, 0.6, 0.02)
   \<and> resid [4] [0.5] [1.5] 0.5 (1, 0.6) = Inr [- 0.2]
   \<and> sum_squares [- 0.2] = 0.04"
  unfolding fit_stalled_bench resid_bench
  by (simp add: stalled_solver_cost sum_squares_def power2_eq_square)

end
